theory Spec2Isabelle
  imports Main
begin

section \<open>Exceptions\<close>

text \<open>
  The exceptions that the builder of \<^verbatim>\<open>ftl/common/builder.py\<close> can end with.
  \<open>UnboundLocalError\<close>, \<open>AttributeError\<close> and \<open>KeyError\<close> are raised by the
  interpreter on the builder's own statements; \<open>Raised\<close> carries the name of an
  exception that comes out of a collaborator (JSON parsing, name parsing, image loading).
\<close>

datatype error = UnboundLocalError | AttributeError | KeyError | Raised string

section \<open>Images and the objects handed to the composer\<close>

type_synonym diff_id = string
type_synonym digest = string

text \<open>
  Modelled from the spec: the image interface of the container registry client, as far as
  the builder calls it. An image has a config file (JSON text), an ordered sequence of
  diff identifiers, a table from diff identifier to blob digest
  (\<^verbatim>\<open>_diff_id_to_digest\<close>) and a table from digest to blob (\<^verbatim>\<open>blob\<close>). Both tables
  are partial: a lookup outside them is Python's \<open>KeyError\<close>.
\<close>

record image =
  config_file :: string
  diff_ids :: "diff_id list"
  diff_id_to_digest :: "diff_id \<rightharpoonup> digest"
  blob :: "digest \<rightharpoonup> string"

text \<open>
  The elements of \<^verbatim>\<open>lyr_imgs\<close> are Python objects of two kinds: an image itself
  (the resolved base image, which has no \<^verbatim>\<open>GetImage\<close> method), and a layer builder,
  whose \<^verbatim>\<open>GetImage()\<close> returns the image it built (and which has none of the
  image's methods).
\<close>

datatype lyr_img = DockerImage image | LayerBuilder image

fun GetImage :: "lyr_img \<Rightarrow> error + image" where
  "GetImage (LayerBuilder img) = Inr img"
| "GetImage (DockerImage b) = Inl AttributeError"

text \<open>The diff identifiers an element of the input contributes.\<close>

fun own_diff_ids :: "lyr_img \<Rightarrow> diff_id list" where
  "own_diff_ids (DockerImage b) = diff_ids b"
| "own_diff_ids (LayerBuilder img) = diff_ids img"

text \<open>
  The collaborators whose results the builder only passes on are parameters:
  \<open>load_overrides\<close> is \<^verbatim>\<open>ftl_util.CfgDctToOverrides(json.loads(text))\<close>, which
  raises on malformed text; \<open>sha256\<close> is the content address of a blob;
  \<open>override_config\<close> is the config file of an image after a layer with the given
  overrides and diff identifier has been put on top.
\<close>

record 'ov lib =
  load_overrides :: "string \<Rightarrow> error + 'ov"
  sha256 :: "string \<Rightarrow> digest"
  override_config :: "string \<Rightarrow> 'ov \<Rightarrow> diff_id \<Rightarrow> string"

text \<open>
  Modelled from the spec: \<^verbatim>\<open>append.Layer(base, lyr, diff_id, overrides)\<close> appends a
  new layer onto the accumulator, carrying the diff identifier and applying the overrides.
  The accumulator has to be an image: a layer builder has no manifest to read.
\<close>

fun append_Layer :: "'ov lib \<Rightarrow> lyr_img \<Rightarrow> string \<Rightarrow> diff_id \<Rightarrow> 'ov \<Rightarrow> error + lyr_img" where
  "append_Layer L (DockerImage b) lyr d ov =
     Inr (DockerImage
       \<lparr> config_file = override_config L (config_file b) ov d,
         diff_ids = diff_ids b @ [d],
         diff_id_to_digest = (diff_id_to_digest b)(d \<mapsto> sha256 L lyr),
         blob = (blob b)(sha256 L lyr \<mapsto> lyr) \<rparr>)"
| "append_Layer L (LayerBuilder img) lyr d ov = Inl AttributeError"

section \<open>AppendLayersIntoImage\<close>

text \<open>The calls the composer makes on its collaborators, in the order it makes them.\<close>

datatype event = Blob_retrieved digest | Manifest_parsed | Layer_appended diff_id

text \<open>
  The inner loop, \<^verbatim>\<open>for diff_id in diff_ids\<close>. The local variable
  \<^verbatim>\<open>result_image\<close> is an option: \<open>None\<close> while it is unbound.
\<close>

fun append_diff_ids ::
  "'ov lib \<Rightarrow> image \<Rightarrow> diff_id list \<Rightarrow> lyr_img option \<Rightarrow> event list
     \<Rightarrow> error + (event list \<times> lyr_img option)" where
  "append_diff_ids L img [] result_image tr = Inr (tr, result_image)"
| "append_diff_ids L img (d # ds) result_image tr =
     (case diff_id_to_digest img d of
        None \<Rightarrow> Inl KeyError
      | Some dg \<Rightarrow>
     (case blob img dg of
        None \<Rightarrow> Inl KeyError
      | Some lyr \<Rightarrow>
     (case load_overrides L (config_file img) of
        Inl e \<Rightarrow> Inl e
      | Inr overrides \<Rightarrow>
     (case result_image of
        None \<Rightarrow> Inl UnboundLocalError
      | Some r \<Rightarrow>
     (case append_Layer L r lyr d overrides of
        Inl e \<Rightarrow> Inl e
      | Inr r' \<Rightarrow>
          append_diff_ids L img ds (Some r')
            (tr @ [Blob_retrieved dg, Manifest_parsed, Layer_appended d]))))))"

text \<open>The outer loop, \<^verbatim>\<open>for i, lyr_img in enumerate(lyr_imgs)\<close>.\<close>

fun enumerate_lyr_imgs ::
  "'ov lib \<Rightarrow> nat \<Rightarrow> lyr_img list \<Rightarrow> lyr_img option \<Rightarrow> event list
     \<Rightarrow> error + (event list \<times> lyr_img option)" where
  "enumerate_lyr_imgs L i [] result_image tr = Inr (tr, result_image)"
| "enumerate_lyr_imgs L i (lyr_img # rest) result_image tr =
     (if i = 0 then enumerate_lyr_imgs L (Suc i) rest (Some lyr_img) tr
      else
        (case GetImage lyr_img of
           Inl e \<Rightarrow> Inl e
         | Inr img \<Rightarrow>
        (case append_diff_ids L img (diff_ids img) result_image tr of
           Inl e \<Rightarrow> Inl e
         | Inr (tr', result_image') \<Rightarrow>
             enumerate_lyr_imgs L (Suc i) rest result_image' tr')))"

text \<open>
  \<^verbatim>\<open>return result_image\<close>: reading the variable while it is unbound raises
  \<open>UnboundLocalError\<close>. The result is the trace of collaborator calls and the image.
\<close>

definition AppendLayersIntoImage ::
  "'ov lib \<Rightarrow> lyr_img list \<Rightarrow> error + (event list \<times> lyr_img)" where
  "AppendLayersIntoImage L lyr_imgs =
     (case enumerate_lyr_imgs L 0 lyr_imgs None [] of
        Inl e \<Rightarrow> Inl e
      | Inr (tr, None) \<Rightarrow> Inl UnboundLocalError
      | Inr (tr, Some result_image) \<Rightarrow> Inr (tr, result_image))"

text \<open>
  Modelled from the spec: an image's identity is its content digest, derived from its layer
  sequence. The hash itself is the parameter \<open>H\<close>.
\<close>

definition digest_of :: "(diff_id list \<Rightarrow> 'h) \<Rightarrow> lyr_img \<Rightarrow> 'h" where
  "digest_of H r = H (own_diff_ids r)"

text \<open>
  An image can be stacked by the composer when each of its declared diff identifiers has
  a digest and a blob, and its config file parses.
\<close>

definition composable :: "'ov lib \<Rightarrow> image \<Rightarrow> bool" where
  "composable L img \<longleftrightarrow>
     (\<forall>d \<in> set (diff_ids img).
        \<exists>dg lyr. diff_id_to_digest img d = Some dg \<and> blob img dg = Some lyr) \<and>
     (\<exists>ov. load_overrides L (config_file img) = Inr ov)"

section \<open>The build configuration\<close>

text \<open>
  The values an option of the parsed command line holds: \<^verbatim>\<open>None\<close>, a string, or,
  once the constructor has run, a list of strings.
\<close>

datatype pyval = PyNone | PyStr string | PyList "string list"

text \<open>Python's truth value of such a value.\<close>

fun truthy :: "pyval \<Rightarrow> bool" where
  "truthy PyNone = False"
| "truthy (PyStr s) = (s \<noteq> [])"
| "truthy (PyList ts) = (ts \<noteq> [])"

text \<open>
  \<^verbatim>\<open>str.split(sep)\<close> for a separator of one character: the string is cut at every
  occurrence of the separator, and nothing is dropped.
\<close>

fun str_split :: "char \<Rightarrow> string \<Rightarrow> string list" where
  "str_split sep [] = [[]]"
| "str_split sep (x # xs) =
     (if x = sep then [] # str_split sep xs
      else (case str_split sep xs of
              [] \<Rightarrow> [[x]]
            | t # ts \<Rightarrow> (x # t) # ts))"

text \<open>\<^verbatim>\<open>sep.join(tokens)\<close>, the inverse, for stating what the split returns.\<close>

fun str_join :: "char \<Rightarrow> string list \<Rightarrow> string" where
  "str_join sep [] = []"
| "str_join sep [t] = t"
| "str_join sep (t # u # ts) = t @ sep # str_join sep (u # ts)"

text \<open>\<^verbatim>\<open>v.split(" ")\<close>: only a string has the method.\<close>

fun split_method :: "pyval \<Rightarrow> error + pyval" where
  "split_method (PyStr s) = Inr (PyList (str_split CHR '' '' s))"
| "split_method PyNone = Inl AttributeError"
| "split_method (PyList ts) = Inl AttributeError"

text \<open>Python's truth value of an optional string: \<^verbatim>\<open>None\<close> and \<^verbatim>\<open>""\<close> are false.\<close>

fun nonempty :: "string option \<Rightarrow> string option" where
  "nonempty None = None"
| "nonempty (Some s) = (if s = [] then None else Some s)"

record args =
  base :: string
  name :: string
  entrypoint :: pyval
  exposed_ports :: pyval
  tar_base_image_path :: "string option"
  cache_repository :: "string option"
  global_cache :: bool
  output_path :: "string option"
  upload :: bool

section \<open>Collaborators of the constructor\<close>

text \<open>
  Modelled from the spec: an image reference is a (registry, repository, tag) triple, and
  it prints as \<^verbatim>\<open>registry/repository:tag\<close>.
\<close>

record image_ref =
  registry :: string
  repository :: string
  tag :: string

definition str_of_ref :: "image_ref \<Rightarrow> string" where
  "str_of_ref r = registry r @ ''/'' @ repository r @ '':'' @ tag r"

type_synonym creds = string

datatype transport = Http nat

text \<open>
  The cache repository is the configured string, or the target's repository
  (\<^verbatim>\<open>as_repository()\<close>): registry and repository without the tag.
\<close>

datatype cache_repo = Repo_string string | Repository string string

definition as_repository :: "image_ref \<Rightarrow> cache_repo" where
  "as_repository r = Repository (registry r) (repository r)"

definition THREADS :: nat where
  "THREADS = 32"

text \<open>
  The environment of a build: parsing a reference (\<^verbatim>\<open>docker_name.Tag\<close>), the
  keychain, and opening the base image from a tarball or from the registry (construction
  followed by \<^verbatim>\<open>__enter__\<close>). Each may raise.
\<close>

record env =
  Tag :: "string \<Rightarrow> error + image_ref"
  Resolve :: "image_ref \<Rightarrow> error + creds"
  FromTarball :: "string \<Rightarrow> error + image"
  FromRegistry :: "image_ref \<Rightarrow> creds \<Rightarrow> transport \<Rightarrow> error + image"

text \<open>The keyword arguments \<^verbatim>\<open>cache.Registry\<close> is constructed with.\<close>

record cache_Registry =
  repo :: cache_repo
  namespace :: string
  base_image :: image
  creds :: creds
  transport :: transport
  cache_version :: string
  threads :: nat
  mount :: "image_ref list"
  use_global :: bool

section \<open>RuntimeBase\<close>

record 'c RuntimeBase =
  self_ctx :: 'c
  self_namespace :: string
  self_args :: args
  self_base_name :: image_ref
  self_base_creds :: creds
  self_target_image :: image_ref
  self_target_creds :: creds
  self_transport :: transport
  self_base_image :: image
  self_cache :: cache_Registry
  self_descriptor_files :: "string list"

text \<open>
  \<^verbatim>\<open>if v: v = v.split(" ")\<close>: the new value of the field, or the exception of the
  call.
\<close>

definition split_if_set :: "pyval \<Rightarrow> error + pyval" where
  "split_if_set v = (if truthy v then split_method v else Inr v)"

text \<open>
  The constructor from \<^verbatim>\<open>self._args = args\<close> on: the references, the credentials,
  the base image and the cache.
\<close>

definition resolve ::
  "env \<Rightarrow> 'c \<Rightarrow> string \<Rightarrow> args \<Rightarrow> string \<Rightarrow> string list \<Rightarrow> error + 'c RuntimeBase" where
  "resolve E ctx ns a cache_version_str descriptor_files =
     (case Tag E (base a) of
        Inl e \<Rightarrow> Inl e
      | Inr base_name \<Rightarrow>
     (case Resolve E base_name of
        Inl e \<Rightarrow> Inl e
      | Inr base_creds \<Rightarrow>
     (case Tag E (name a) of
        Inl e \<Rightarrow> Inl e
      | Inr target_image \<Rightarrow>
     (case Resolve E target_image of
        Inl e \<Rightarrow> Inl e
      | Inr target_creds \<Rightarrow>
     (case (case nonempty (tar_base_image_path a) of
              Some p \<Rightarrow> FromTarball E p
            | None \<Rightarrow> FromRegistry E base_name base_creds (Http THREADS)) of
        Inl e \<Rightarrow> Inl e
      | Inr base_img \<Rightarrow>
          Inr \<lparr> self_ctx = ctx,
                self_namespace = ns,
                self_args = a,
                self_base_name = base_name,
                self_base_creds = base_creds,
                self_target_image = target_image,
                self_target_creds = target_creds,
                self_transport = Http THREADS,
                self_base_image = base_img,
                self_cache =
                  \<lparr> repo = (case nonempty (cache_repository a) of
                               Some r \<Rightarrow> Repo_string r
                             | None \<Rightarrow> as_repository target_image),
                    namespace = ns,
                    base_image = base_img,
                    creds = target_creds,
                    transport = Http THREADS,
                    cache_version = cache_version_str,
                    threads = THREADS,
                    mount = [base_name],
                    use_global = global_cache a \<rparr>,
                self_descriptor_files = descriptor_files \<rparr>)))))"

text \<open>
  \<^verbatim>\<open>RuntimeBase.__init__\<close>. The \<^verbatim>\<open>args\<close> object belongs to the caller and is
  assigned to in place, so the constructor returns its state after the call next to the
  new builder or the exception; the builder's \<open>self_args\<close> is that same object.
\<close>

definition RuntimeBase_init ::
  "env \<Rightarrow> 'c \<Rightarrow> string \<Rightarrow> args \<Rightarrow> string \<Rightarrow> string list
     \<Rightarrow> args \<times> (error + 'c RuntimeBase)" where
  "RuntimeBase_init E ctx ns a cache_version_str descriptor_files =
     (case split_if_set (entrypoint a) of
        Inl e \<Rightarrow> (a, Inl e)
      | Inr ep \<Rightarrow>
     (case split_if_set (exposed_ports (a\<lparr>entrypoint := ep\<rparr>)) of
        Inl e \<Rightarrow> (a\<lparr>entrypoint := ep\<rparr>, Inl e)
      | Inr ports \<Rightarrow>
          (a\<lparr>entrypoint := ep, exposed_ports := ports\<rparr>,
           resolve E ctx ns (a\<lparr>entrypoint := ep, exposed_ports := ports\<rparr>)
             cache_version_str descriptor_files)))"

section \<open>StoreImage\<close>

text \<open>
  Modelled from the spec: what the store can change. \<open>files\<close> are the local archives by
  path, each the list of (reference, image) entries saved into it; \<open>pushes\<close> are the
  uploads made, each with the arguments of its push session; \<open>logged\<close> are the log
  lines and the tags of the completed timed operations.
\<close>

record push =
  push_name :: image_ref
  push_creds :: creds
  push_transport :: transport
  push_threads :: nat
  push_mount :: "image_ref list"
  push_image :: lyr_img

datatype log_entry = Info string | Timing string

record world =
  files :: "string \<rightharpoonup> (image_ref \<times> lyr_img) list"
  pushes :: "push list"
  logged :: "log_entry list"

text \<open>
  The two calls of the archive branch may raise, and what they do is outside the builder,
  so their outcomes are parameters: \<open>tarfile_open\<close> is
  \<^verbatim>\<open>tarfile.open(name, mode='w')\<close>, which raises when the file cannot be created
  (a missing directory, no permission); \<open>tarball\<close> is
  \<^verbatim>\<open>save.tarball(name, image, tar)\<close>, which raises when the image cannot be
  written out.
\<close>

record io =
  tarfile_open :: "string \<Rightarrow> error + unit"
  tarball :: "image_ref \<Rightarrow> lyr_img \<Rightarrow> error + unit"

text \<open>
  The archive branch. When \<^verbatim>\<open>tarfile.open\<close> raises, nothing has been written. Once
  it has returned, the file exists and is empty; \<^verbatim>\<open>save.tarball\<close> then writes the
  target reference and the image into it, or raises and leaves no entry. The log lines
  come after both calls.
\<close>

definition save_tarball ::
  "io \<Rightarrow> world \<Rightarrow> 'c RuntimeBase \<Rightarrow> string \<Rightarrow> lyr_img \<Rightarrow> world \<times> (error + unit)" where
  "save_tarball io w self p result_image =
     (case tarfile_open io p of
        Inl e \<Rightarrow> (w, Inl e)
      | Inr opened \<Rightarrow>
     (case tarball io (self_target_image self) result_image of
        Inl e \<Rightarrow> (w\<lparr> files := (files w)(p \<mapsto> []) \<rparr>, Inl e)
      | Inr saved \<Rightarrow>
          (w\<lparr> files := (files w)(p \<mapsto> [(self_target_image self, result_image)]),
              logged := logged w @
                [Info (str_of_ref (self_target_image self) @ '' tarball located at '' @ p),
                 Timing ''saving_tarball_image''] \<rparr>,
           Inr ())))"

text \<open>The upload branch: a push session on the target, and one upload in it.\<close>

definition push_image_to_registry :: "world \<Rightarrow> 'c RuntimeBase \<Rightarrow> lyr_img \<Rightarrow> world" where
  "push_image_to_registry w self result_image =
     w\<lparr> pushes := pushes w @
          [\<lparr> push_name = self_target_image self,
             push_creds = self_target_creds self,
             push_transport = self_transport self,
             push_threads = THREADS,
             push_mount = [self_base_name self],
             push_image = result_image \<rparr>],
        logged := logged w @
          [Info ''Pushing final image...'',
           Timing ''pushing_image_to_docker_registry''] \<rparr>"

text \<open>
  \<^verbatim>\<open>StoreImage\<close> returns the world after the call and either the exception that
  came out of it or \<^verbatim>\<open>None\<close>.
\<close>

definition StoreImage ::
  "io \<Rightarrow> world \<Rightarrow> 'c RuntimeBase \<Rightarrow> lyr_img \<Rightarrow> world \<times> (error + unit)" where
  "StoreImage io w self result_image =
     (case nonempty (output_path (self_args self)) of
        Some p \<Rightarrow> save_tarball io w self p result_image
      | None \<Rightarrow>
          (if upload (self_args self)
           then (push_image_to_registry w self result_image, Inr ())
           else (w, Inr ())))"

text \<open>The values the command line parser itself produces: \<^verbatim>\<open>None\<close> or a string.\<close>

fun is_opt_str :: "pyval \<Rightarrow> bool" where
  "is_opt_str PyNone = True"
| "is_opt_str (PyStr s) = True"
| "is_opt_str (PyList ts) = False"

section \<open>Concrete inputs\<close>

text \<open>
  An image whose config file is \<open>cfg\<close> and whose layers are named by the given diff
  identifiers, each with a digest and a blob.
\<close>

definition layer_image :: "string \<Rightarrow> diff_id list \<Rightarrow> image" where
  "layer_image cfg ds =
     \<lparr> config_file = cfg,
       diff_ids = ds,
       diff_id_to_digest = map_of (map (\<lambda>d. (d, ''sha256:'' @ d)) ds),
       blob = map_of (map (\<lambda>d. (''sha256:'' @ d, ''tgz:'' @ d)) ds) \<rparr>"

definition example_lib :: "unit lib" where
  "example_lib =
     \<lparr> load_overrides =
         (\<lambda>text. if text = ''{}'' then Inr () else Inl (Raised ''ValueError'')),
       sha256 = (\<lambda>b. ''sha256:'' @ drop 4 b),
       override_config = (\<lambda>cfg ov d. cfg) \<rparr>"

definition example_env :: env where
  "example_env =
     \<lparr> Tag = (\<lambda>s. if s = [] then Inl (Raised ''BadNameException'')
                    else Inr \<lparr> registry = ''gcr.io'', repository = s, tag = ''latest'' \<rparr>),
       Resolve = (\<lambda>r. Inr (''token:'' @ repository r)),
       FromTarball = (\<lambda>p. Inr (layer_image ''{}'' [''d0''])),
       FromRegistry = (\<lambda>r c t. Inr (layer_image ''{}'' [''d0''])) \<rparr>"

definition example_args :: args where
  "example_args =
     \<lparr> base = ''base'',
       name = ''app'',
       entrypoint = PyStr ''a b c'',
       exposed_ports = PyStr ''80 443'',
       tar_base_image_path = None,
       cache_repository = None,
       global_cache = False,
       output_path = Some ''/tmp/out.tar'',
       upload = True \<rparr>"

text \<open>The builder that the constructor makes in \<open>example_env\<close>, around the given args.\<close>

definition example_builder :: "args \<Rightarrow> unit RuntimeBase" where
  "example_builder a =
     \<lparr> self_ctx = (),
       self_namespace = ''python'',
       self_args = a,
       self_base_name = \<lparr> registry = ''gcr.io'', repository = ''base'', tag = ''latest'' \<rparr>,
       self_base_creds = ''token:base'',
       self_target_image = \<lparr> registry = ''gcr.io'', repository = ''app'', tag = ''latest'' \<rparr>,
       self_target_creds = ''token:app'',
       self_transport = Http 32,
       self_base_image = layer_image ''{}'' [''d0''],
       self_cache =
         \<lparr> repo = Repository ''gcr.io'' ''app'',
           namespace = ''python'',
           base_image = layer_image ''{}'' [''d0''],
           creds = ''token:app'',
           transport = Http 32,
           cache_version = ''v1'',
           threads = 32,
           mount = [\<lparr> registry = ''gcr.io'', repository = ''base'', tag = ''latest'' \<rparr>],
           use_global = False \<rparr>,
       self_descriptor_files = [''requirements.txt''] \<rparr>"

definition example_world :: world where
  "example_world = \<lparr> files = Map.empty, pushes = [], logged = [] \<rparr>"

text \<open>Archives can be created under \<^verbatim>\<open>/tmp/\<close> only; every image can be written out.\<close>

definition example_io :: io where
  "example_io =
     \<lparr> tarfile_open =
         (\<lambda>p. if take 5 p = ''/tmp/'' then Inr () else Inl (Raised ''IOError'')),
       tarball = (\<lambda>r i. Inr ()) \<rparr>"

section \<open>The composer's loops\<close>

lemma append_diff_ids_own:
  "append_diff_ids L img ds (Some r) tr = Inr (tr', res) \<Longrightarrow>
   \<exists>r'. res = Some r' \<and> own_diff_ids r' = own_diff_ids r @ ds"
proof (induction ds arbitrary: r tr)
  case Nil
  then show ?case by auto
next
  case (Cons d ds)
  from Cons.prems obtain dg lyr ov r1 where
    a: "append_Layer L r lyr d ov = Inr r1"
    and b: "append_diff_ids L img ds (Some r1)
              (tr @ [Blob_retrieved dg, Manifest_parsed, Layer_appended d]) = Inr (tr', res)"
    by (auto split: option.splits sum.splits)
  from a have "own_diff_ids r1 = own_diff_ids r @ [d]"
    by (cases r) auto
  with Cons.IH [OF b] show ?case by auto
qed

lemma enumerate_lyr_imgs_own:
  "0 < i \<Longrightarrow> enumerate_lyr_imgs L i xs (Some r) tr = Inr (tr', res) \<Longrightarrow>
   \<exists>r'. res = Some r' \<and> own_diff_ids r' = own_diff_ids r @ concat (map own_diff_ids xs)"
proof (induction xs arbitrary: i r tr)
  case Nil
  then show ?case by auto
next
  case (Cons x xs)
  from Cons.prems obtain img tr1 res1 where
    g: "GetImage x = Inr img"
    and a: "append_diff_ids L img (diff_ids img) (Some r) tr = Inr (tr1, res1)"
    and b: "enumerate_lyr_imgs L (Suc i) xs res1 tr1 = Inr (tr', res)"
    by (auto split: sum.splits)
  from g have x: "own_diff_ids x = diff_ids img" by (cases x) auto
  from append_diff_ids_own [OF a] obtain r1 where
    r1: "res1 = Some r1" "own_diff_ids r1 = own_diff_ids r @ diff_ids img" by auto
  from Cons.IH [of "Suc i" r1 tr1] b r1 x show ?case by auto
qed

lemma append_diff_ids_total:
  assumes "\<forall>d \<in> set ds. \<exists>dg lyr. diff_id_to_digest img d = Some dg \<and> blob img dg = Some lyr"
    and "load_overrides L (config_file img) = Inr ov"
  shows "\<exists>tr' b'. append_diff_ids L img ds (Some (DockerImage b)) tr = Inr (tr', Some (DockerImage b'))"
  using assms
proof (induction ds arbitrary: b tr)
  case Nil
  then show ?case by simp
next
  case (Cons d ds)
  then obtain dg lyr where "diff_id_to_digest img d = Some dg" "blob img dg = Some lyr"
    by auto
  with Cons show ?case by simp
qed

lemma enumerate_lyr_imgs_total:
  assumes "\<forall>img \<in> set imgs. composable L img" and "0 < i"
  shows "\<exists>tr' b'. enumerate_lyr_imgs L i (map LayerBuilder imgs) (Some (DockerImage b)) tr
           = Inr (tr', Some (DockerImage b'))"
  using assms
proof (induction imgs arbitrary: b tr i)
  case Nil
  then show ?case by simp
next
  case (Cons img imgs)
  from Cons.prems have c: "composable L img" by simp
  then obtain ov where ov: "load_overrides L (config_file img) = Inr ov"
    by (auto simp: composable_def)
  from c have "\<forall>d \<in> set (diff_ids img). \<exists>dg lyr. diff_id_to_digest img d = Some dg \<and> blob img dg = Some lyr"
    by (simp add: composable_def)
  from append_diff_ids_total [OF this ov, of b tr] obtain tr1 b1 where
    a: "append_diff_ids L img (diff_ids img) (Some (DockerImage b)) tr = Inr (tr1, Some (DockerImage b1))"
    by blast
  from Cons.IH [of "Suc i" b1 tr1] Cons.prems obtain tr' b' where
    "enumerate_lyr_imgs L (Suc i) (map LayerBuilder imgs) (Some (DockerImage b1)) tr1
       = Inr (tr', Some (DockerImage b'))" by auto
  with a Cons.prems show ?case by simp
qed

lemma map_of_keyed:
  "d \<in> set ds \<Longrightarrow> \<exists>v. map_of (map (\<lambda>d. (f d, g d)) ds) (f d) = Some v"
  by (induction ds) auto

lemma composable_layer_image:
  "load_overrides L cfg = Inr ov \<Longrightarrow> composable L (layer_image cfg ds)"
proof -
  assume p: "load_overrides L cfg = Inr ov"
  have "\<exists>dg lyr. diff_id_to_digest (layer_image cfg ds) d = Some dg \<and>
          blob (layer_image cfg ds) dg = Some lyr" if "d \<in> set ds" for d
  proof -
    have "map_of (map (\<lambda>d. (d, ''sha256:'' @ d)) ds) d = Some (''sha256:'' @ d)"
      using that by (simp add: map_of_map_restrict)
    moreover from map_of_keyed [OF that, of "\<lambda>d. ''sha256:'' @ d" "\<lambda>d. ''tgz:'' @ d"]
    obtain v where "map_of (map (\<lambda>d. (''sha256:'' @ d, ''tgz:'' @ d)) ds) (''sha256:'' @ d) = Some v"
      by blast
    ultimately show ?thesis by (simp add: layer_image_def)
  qed
  with p show ?thesis by (simp add: composable_def layer_image_def)
qed

section \<open>Splitting and the constructor\<close>

lemma str_split_not_Nil: "str_split c s \<noteq> []"
  by (induction s) (auto split: list.splits)

lemma str_split_append_sep: "str_split c (u @ c # v) = str_split c u @ str_split c v"
proof (induction u)
  case Nil
  show ?case by simp
next
  case (Cons x u)
  obtain t ts where "str_split c u = t # ts"
    using str_split_not_Nil [of c u] by (cases "str_split c u") auto
  with Cons show ?case by simp
qed

lemma str_join_Cons: "str_join c ((x # t) # ts) = x # str_join c (t # ts)"
  by (cases ts) auto

lemma str_join_split: "str_join c (str_split c s) = s"
proof (induction s)
  case Nil
  show ?case by simp
next
  case (Cons x s)
  obtain t ts where ts: "str_split c s = t # ts"
    using str_split_not_Nil [of c s] by (cases "str_split c s") auto
  with Cons show ?case by (simp add: str_join_Cons)
qed

lemma str_split_no_sep: "t \<in> set (str_split c s) \<Longrightarrow> c \<notin> set t"
proof (induction s arbitrary: t)
  case Nil
  then show ?case by simp
next
  case (Cons x s)
  obtain u us where us: "str_split c s = u # us"
    using str_split_not_Nil [of c s] by (cases "str_split c s") auto
  show ?case
  proof (cases "x = c")
    case True
    with Cons show ?thesis by auto
  next
    case False
    with Cons.prems us have "t = x # u \<or> t \<in> set us" by simp
    with Cons.IH [of u] Cons.IH [of t] us False show ?thesis by auto
  qed
qed

lemma length_str_split: "length (str_split c s) = Suc (count_list s c)"
proof (induction s)
  case Nil
  show ?case by simp
next
  case (Cons x s)
  obtain u us where us: "str_split c s = u # us"
    using str_split_not_Nil [of c s] by (cases "str_split c s") auto
  with Cons show ?case by auto
qed

lemma str_split_empty_token:
  assumes "s = c # u \<or> s = u @ [c] \<or> s = u @ c # c # v"
  shows "[] \<in> set (str_split c s)"
proof -
  have "str_split c (u @ [c]) = str_split c u @ [[]]"
    using str_split_append_sep [of c u "[]"] by simp
  moreover have "str_split c (u @ c # c # v) = str_split c u @ [] # str_split c v"
    using str_split_append_sep [of c u "c # v"] by simp
  ultimately show ?thesis using assms by auto
qed

lemma split_if_set_str: "s \<noteq> [] \<Longrightarrow> split_if_set (PyStr s) = Inr (PyList (str_split CHR '' '' s))"
  by (simp add: split_if_set_def)

lemma split_if_set_opt_str: "is_opt_str v \<Longrightarrow> \<exists>v'. split_if_set v = Inr v'"
  by (cases v) (auto simp: split_if_set_def)

lemma split_if_set_falsy: "\<not> truthy v \<Longrightarrow> split_if_set v = Inr v"
  by (simp add: split_if_set_def)

lemma entrypoint_after:
  "split_if_set (entrypoint a) = Inr ep \<Longrightarrow>
   entrypoint (fst (RuntimeBase_init E ctx ns a cv df)) = ep"
  by (simp add: RuntimeBase_init_def split: sum.splits)

lemma entrypoint_after_raise:
  "split_if_set (entrypoint a) = Inl e \<Longrightarrow> RuntimeBase_init E ctx ns a cv df = (a, Inl e)"
  by (simp add: RuntimeBase_init_def)

lemma exposed_ports_after:
  "split_if_set (entrypoint a) = Inr ep \<Longrightarrow> split_if_set (exposed_ports a) = Inr ports \<Longrightarrow>
   exposed_ports (fst (RuntimeBase_init E ctx ns a cv df)) = ports"
  by (simp add: RuntimeBase_init_def split: sum.splits)

lemma args_frame:
  "fst (RuntimeBase_init E ctx ns a cv df) =
     a\<lparr>entrypoint := entrypoint (fst (RuntimeBase_init E ctx ns a cv df)),
       exposed_ports := exposed_ports (fst (RuntimeBase_init E ctx ns a cv df))\<rparr>"
  by (simp add: RuntimeBase_init_def split: sum.splits)

lemma resolve_fields:
  "resolve E ctx ns a cv df = Inr self \<Longrightarrow>
     self_args self = a \<and>
     Tag E (base a) = Inr (self_base_name self) \<and>
     Resolve E (self_base_name self) = Inr (self_base_creds self) \<and>
     Tag E (name a) = Inr (self_target_image self) \<and>
     Resolve E (self_target_image self) = Inr (self_target_creds self) \<and>
     self_transport self = Http THREADS"
  by (auto simp: resolve_def split: sum.splits)

lemma init_fields:
  "RuntimeBase_init E ctx ns a cv df = (a', Inr self) \<Longrightarrow>
     self_args self = a' \<and>
     Tag E (base a) = Inr (self_base_name self) \<and>
     Resolve E (self_base_name self) = Inr (self_base_creds self) \<and>
     Tag E (name a) = Inr (self_target_image self) \<and>
     Resolve E (self_target_image self) = Inr (self_target_creds self) \<and>
     self_transport self = Http THREADS"
  by (auto simp: RuntimeBase_init_def split: sum.splits dest!: resolve_fields)

lemma example_init:
  "a = example_args\<lparr>output_path := op, upload := up\<rparr> \<Longrightarrow>
   RuntimeBase_init example_env () ''python'' a ''v1'' [''requirements.txt''] =
     (a\<lparr>entrypoint := PyList [''a'', ''b'', ''c''], exposed_ports := PyList [''80'', ''443'']\<rparr>,
      Inr (example_builder
        (a\<lparr>entrypoint := PyList [''a'', ''b'', ''c''], exposed_ports := PyList [''80'', ''443'']\<rparr>)))"
  by (simp add: RuntimeBase_init_def resolve_def split_if_set_def example_env_def
      example_args_def example_builder_def as_repository_def THREADS_def)

section \<open>Layer composition\<close>

text \<open>
  C1. Whenever \<open>AppendLayersIntoImage\<close> returns an image for a non-empty input, the
  diff identifiers of that image are those of element 0 followed by those of every later
  element, in input order: element 0 is the initial accumulator and is not appended again.
  It does return, with an image, when element 0 is an image and every later element is a
  layer builder whose image has a blob for each declared diff identifier and a config
  file that parses. For diff identifiers [d0], [d1,d2], [d3] the result has
  [d0,d1,d2,d3].
\<close>

theorem AppendLayersIntoImage_diff_ids:
  "(AppendLayersIntoImage L (x # xs) = Inr (tr, r) \<longrightarrow>
      own_diff_ids r = own_diff_ids x @ concat (map own_diff_ids xs)) \<and>
   ((\<forall>img \<in> set imgs. composable L img) \<longrightarrow>
      (\<exists>tr' b'. AppendLayersIntoImage L (DockerImage b # map LayerBuilder imgs)
                  = Inr (tr', DockerImage b')))"
proof (intro conjI impI)
  assume a: "AppendLayersIntoImage L (x # xs) = Inr (tr, r)"
  then obtain res where e: "enumerate_lyr_imgs L (Suc 0) xs (Some x) [] = Inr (tr, res)"
    and "res = Some r"
    by (auto simp: AppendLayersIntoImage_def split: sum.splits option.splits)
  with enumerate_lyr_imgs_own [OF _ e]
  show "own_diff_ids r = own_diff_ids x @ concat (map own_diff_ids xs)" by auto
next
  assume "\<forall>img \<in> set imgs. composable L img"
  from enumerate_lyr_imgs_total [OF this, of "Suc 0" b "[]"]
  show "\<exists>tr' b'. AppendLayersIntoImage L (DockerImage b # map LayerBuilder imgs)
                  = Inr (tr', DockerImage b')"
    by (auto simp: AppendLayersIntoImage_def)
qed

theorem AppendLayersIntoImage_diff_ids_witness:
  "\<exists>tr r. AppendLayersIntoImage example_lib
       [DockerImage (layer_image ''{}'' [''d0'']),
        LayerBuilder (layer_image ''{}'' [''d1'', ''d2'']),
        LayerBuilder (layer_image ''{}'' [''d3''])] = Inr (tr, r)
     \<and> own_diff_ids r = [''d0'', ''d1'', ''d2'', ''d3'']"
proof -
  let ?b = "layer_image ''{}'' [''d0'']"
  let ?imgs = "[layer_image ''{}'' [''d1'', ''d2''], layer_image ''{}'' [''d3'']]"
  have p: "load_overrides example_lib ''{}'' = Inr ()" by (simp add: example_lib_def)
  have c: "\<forall>img \<in> set ?imgs. composable example_lib img"
    using composable_layer_image [OF p] by simp
  from c AppendLayersIntoImage_diff_ids
    [of example_lib "DockerImage ?b" "map LayerBuilder ?imgs" _ _ ?imgs ?b]
  obtain tr b' where
    r: "AppendLayersIntoImage example_lib (DockerImage ?b # map LayerBuilder ?imgs)
          = Inr (tr, DockerImage b')" by blast
  from r AppendLayersIntoImage_diff_ids
    [of example_lib "DockerImage ?b" "map LayerBuilder ?imgs" tr "DockerImage b'" ?imgs ?b]
  have "own_diff_ids (DockerImage b') = [''d0'', ''d1'', ''d2'', ''d3'']"
    by (simp add: layer_image_def)
  with r show ?thesis by auto
qed

text \<open>
  C5. On the empty input sequence \<open>AppendLayersIntoImage\<close> returns no image: the loop
  body never runs, and the \<^verbatim>\<open>return\<close> reads the unbound \<^verbatim>\<open>result_image\<close>, which
  raises.
\<close>

theorem AppendLayersIntoImage_empty:
  "AppendLayersIntoImage L [] = Inl UnboundLocalError"
  by (simp add: AppendLayersIntoImage_def)

text \<open>
  C6. On a single-element input \<open>AppendLayersIntoImage\<close> returns that element itself,
  and the trace of collaborator calls is empty: no blob is retrieved, no manifest is
  parsed and no layer is appended, whatever the element and the collaborators are.
\<close>

theorem AppendLayersIntoImage_single:
  "AppendLayersIntoImage L [img] = Inr ([], img)"
  by (simp add: AppendLayersIntoImage_def)

text \<open>
  C8. Composition is not commutative: there are a base and two layers such that both
  orders of the two layers compose, and the two composites differ, in their diff
  identifier sequences and so in every digest computed from them by a collision-free
  hash. (The hypothesis only asks that the config file of the layers parses.)
\<close>

theorem AppendLayersIntoImage_not_commutative:
  assumes "load_overrides L cfg = Inr ov"
  shows "\<exists>b a c tr1 r1 tr2 r2.
           AppendLayersIntoImage L [b, a, c] = Inr (tr1, r1) \<and>
           AppendLayersIntoImage L [b, c, a] = Inr (tr2, r2) \<and>
           own_diff_ids r1 \<noteq> own_diff_ids r2 \<and> r1 \<noteq> r2 \<and>
           (\<forall>H. inj H \<longrightarrow> digest_of H r1 \<noteq> digest_of H r2)"
proof -
  let ?b = "DockerImage (layer_image cfg [''d0''])"
  let ?a = "LayerBuilder (layer_image cfg [''d1''])"
  let ?c = "LayerBuilder (layer_image cfg [''d2''])"
  obtain tr1 r1 where e1: "AppendLayersIntoImage L [?b, ?a, ?c] = Inr (tr1, r1)"
    and d1: "own_diff_ids r1 = [''d0'', ''d1'', ''d2'']"
    using assms by (simp add: AppendLayersIntoImage_def layer_image_def)
  obtain tr2 r2 where e2: "AppendLayersIntoImage L [?b, ?c, ?a] = Inr (tr2, r2)"
    and d2: "own_diff_ids r2 = [''d0'', ''d2'', ''d1'']"
    using assms by (simp add: AppendLayersIntoImage_def layer_image_def)
  from d1 d2 have n: "own_diff_ids r1 \<noteq> own_diff_ids r2" by simp
  then have "r1 \<noteq> r2" by auto
  moreover from n have "\<forall>H. inj H \<longrightarrow> digest_of H r1 \<noteq> digest_of H r2"
    by (auto simp: digest_of_def dest: injD)
  ultimately show ?thesis using e1 e2 n by blast
qed

theorem AppendLayersIntoImage_not_commutative_witness:
  "\<exists>b a c tr1 r1 tr2 r2.
     AppendLayersIntoImage example_lib [b, a, c] = Inr (tr1, r1) \<and>
     AppendLayersIntoImage example_lib [b, c, a] = Inr (tr2, r2) \<and>
     own_diff_ids r1 \<noteq> own_diff_ids r2 \<and>
     digest_of (\<lambda>ds. ds) r1 \<noteq> digest_of (\<lambda>ds. ds) r2"
proof -
  have p: "load_overrides example_lib ''{}'' = Inr ()" by (simp add: example_lib_def)
  have i: "inj (\<lambda>ds::diff_id list. ds)" by (simp add: inj_def)
  from AppendLayersIntoImage_not_commutative [OF p]
  obtain b a c tr1 r1 tr2 r2 where
    "AppendLayersIntoImage example_lib [b, a, c] = Inr (tr1, r1)"
    "AppendLayersIntoImage example_lib [b, c, a] = Inr (tr2, r2)"
    "own_diff_ids r1 \<noteq> own_diff_ids r2"
    "\<forall>H::diff_id list \<Rightarrow> diff_id list. inj H \<longrightarrow> digest_of H r1 \<noteq> digest_of H r2"
    by blast
  with i show ?thesis by blast
qed

section \<open>Construction\<close>

text \<open>
  C7. After construction, an entrypoint that was a non-empty string is the list of its
  pieces between single spaces, in order: joining the pieces with single spaces gives the
  string back, and no piece contains a space; \<open>''a b c''\<close> becomes
  \<open>[''a'', ''b'', ''c'']\<close>. The same holds for the exposed ports (the entrypoint being
  what the command line gives, unset or a string). An entrypoint or exposed ports value
  that is unset or the empty string is left as it is.
\<close>

theorem RuntimeBase_init_splits:
  assumes "a' = fst (RuntimeBase_init E ctx ns a cv df)"
  shows "(entrypoint a = PyStr s \<and> s \<noteq> [] \<longrightarrow>
            entrypoint a' = PyList (str_split CHR '' '' s) \<and>
            str_join CHR '' '' (str_split CHR '' '' s) = s \<and>
            (\<forall>t \<in> set (str_split CHR '' '' s). CHR '' '' \<notin> set t)) \<and>
         (entrypoint a = PyStr ''a b c'' \<longrightarrow> entrypoint a' = PyList [''a'', ''b'', ''c'']) \<and>
         (is_opt_str (entrypoint a) \<and> exposed_ports a = PyStr s \<and> s \<noteq> [] \<longrightarrow>
            exposed_ports a' = PyList (str_split CHR '' '' s)) \<and>
         (entrypoint a = PyNone \<or> entrypoint a = PyStr [] \<longrightarrow> entrypoint a' = entrypoint a) \<and>
         (exposed_ports a = PyNone \<or> exposed_ports a = PyStr [] \<longrightarrow>
            exposed_ports a' = exposed_ports a)"
proof (intro conjI impI)
  assume "entrypoint a = PyStr s \<and> s \<noteq> []"
  then show "entrypoint a' = PyList (str_split CHR '' '' s)"
    using assms entrypoint_after [of a "PyList (str_split CHR '' '' s)"]
    by (simp add: split_if_set_str)
next
  show "str_join CHR '' '' (str_split CHR '' '' s) = s" by (rule str_join_split)
next
  show "\<forall>t \<in> set (str_split CHR '' '' s). CHR '' '' \<notin> set t"
    using str_split_no_sep by blast
next
  assume "entrypoint a = PyStr ''a b c''"
  then show "entrypoint a' = PyList [''a'', ''b'', ''c'']"
    using assms entrypoint_after [of a "PyList [''a'', ''b'', ''c'']"]
    by (simp add: split_if_set_def)
next
  assume h: "is_opt_str (entrypoint a) \<and> exposed_ports a = PyStr s \<and> s \<noteq> []"
  then obtain ep where "split_if_set (entrypoint a) = Inr ep"
    using split_if_set_opt_str by blast
  with h show "exposed_ports a' = PyList (str_split CHR '' '' s)"
    using assms exposed_ports_after [of a ep "PyList (str_split CHR '' '' s)"]
    by (simp add: split_if_set_str)
next
  assume "entrypoint a = PyNone \<or> entrypoint a = PyStr []"
  then have "split_if_set (entrypoint a) = Inr (entrypoint a)"
    by (auto simp: split_if_set_def)
  then show "entrypoint a' = entrypoint a"
    using assms entrypoint_after by simp
next
  assume "exposed_ports a = PyNone \<or> exposed_ports a = PyStr []"
  then have p: "split_if_set (exposed_ports a) = Inr (exposed_ports a)"
    by (auto simp: split_if_set_def)
  show "exposed_ports a' = exposed_ports a"
  proof (cases "split_if_set (entrypoint a)")
    case (Inl e)
    then show ?thesis using assms by (simp add: entrypoint_after_raise)
  next
    case (Inr ep)
    then show ?thesis using assms p exposed_ports_after by simp
  qed
qed

theorem RuntimeBase_init_splits_witness:
  "entrypoint (fst (RuntimeBase_init example_env () ''python'' example_args ''v1'' []))
     = PyList [''a'', ''b'', ''c''] \<and>
   exposed_ports (fst (RuntimeBase_init example_env () ''python'' example_args ''v1'' []))
     = PyList [''80'', ''443''] \<and>
   entrypoint (fst (RuntimeBase_init example_env () ''python''
       (example_args\<lparr>entrypoint := PyStr [], exposed_ports := PyNone\<rparr>) ''v1'' []))
     = PyStr [] \<and>
   exposed_ports (fst (RuntimeBase_init example_env () ''python''
       (example_args\<lparr>entrypoint := PyStr [], exposed_ports := PyNone\<rparr>) ''v1'' []))
     = PyNone"
  using RuntimeBase_init_splits [OF refl, where a = example_args and s = "''a b c''"
      and E = example_env and ctx = "()" and ns = "''python''" and cv = "''v1''" and df = "[]"]
    RuntimeBase_init_splits [OF refl, where a = example_args and s = "''80 443''"
      and E = example_env and ctx = "()" and ns = "''python''" and cv = "''v1''" and df = "[]"]
    RuntimeBase_init_splits [OF refl,
      where a = "example_args\<lparr>entrypoint := PyStr [], exposed_ports := PyNone\<rparr>"
      and s = "''x''"
      and E = example_env and ctx = "()" and ns = "''python''" and cv = "''v1''" and df = "[]"]
  by (simp add: example_args_def)

text \<open>
  C9. The constructor assigns to the caller's args object: the state of that object after
  the call differs from the one before in the entrypoint and the exposed ports at most.
  An entrypoint that was a non-empty string is its list of tokens afterwards, and so are
  the exposed ports (the entrypoint being unset or a string), also when the constructor
  raises later on; and a builder that is returned holds this very state as its args.
\<close>

theorem RuntimeBase_init_mutates_args:
  assumes "a' = fst (RuntimeBase_init E ctx ns a cv df)"
  shows "a' = a\<lparr>entrypoint := entrypoint a', exposed_ports := exposed_ports a'\<rparr> \<and>
         (entrypoint a = PyStr s \<and> s \<noteq> [] \<longrightarrow>
            entrypoint a' = PyList (str_split CHR '' '' s) \<and> entrypoint a' \<noteq> entrypoint a) \<and>
         (is_opt_str (entrypoint a) \<and> exposed_ports a = PyStr s \<and> s \<noteq> [] \<longrightarrow>
            exposed_ports a' = PyList (str_split CHR '' '' s) \<and>
            exposed_ports a' \<noteq> exposed_ports a) \<and>
         (\<forall>self. snd (RuntimeBase_init E ctx ns a cv df) = Inr self \<longrightarrow> self_args self = a')"
proof (intro conjI impI allI)
  show "a' = a\<lparr>entrypoint := entrypoint a', exposed_ports := exposed_ports a'\<rparr>"
    unfolding assms by (rule args_frame)
next
  assume h: "entrypoint a = PyStr s \<and> s \<noteq> []"
  then show e: "entrypoint a' = PyList (str_split CHR '' '' s)"
    using assms entrypoint_after [of a "PyList (str_split CHR '' '' s)"]
    by (simp add: split_if_set_str)
  from h e show "entrypoint a' \<noteq> entrypoint a" by simp
next
  assume h: "is_opt_str (entrypoint a) \<and> exposed_ports a = PyStr s \<and> s \<noteq> []"
  then obtain ep where "split_if_set (entrypoint a) = Inr ep"
    using split_if_set_opt_str by blast
  with h show e: "exposed_ports a' = PyList (str_split CHR '' '' s)"
    using assms exposed_ports_after [of a ep "PyList (str_split CHR '' '' s)"]
    by (simp add: split_if_set_str)
  from h e show "exposed_ports a' \<noteq> exposed_ports a" by simp
next
  fix self
  assume "snd (RuntimeBase_init E ctx ns a cv df) = Inr self"
  with assms have "RuntimeBase_init E ctx ns a cv df = (a', Inr self)"
    by (simp add: prod_eq_iff)
  from init_fields [OF this] show "self_args self = a'" by simp
qed

theorem RuntimeBase_init_mutates_args_witness:
  "fst (RuntimeBase_init example_env () ''python'' example_args ''v1'' [''requirements.txt''])
     = example_args\<lparr>entrypoint := PyList [''a'', ''b'', ''c''],
                    exposed_ports := PyList [''80'', ''443'']\<rparr> \<and>
   (\<exists>self. snd (RuntimeBase_init example_env () ''python'' example_args ''v1''
               [''requirements.txt'']) = Inr self \<and>
      self_args self = example_args\<lparr>entrypoint := PyList [''a'', ''b'', ''c''],
                                     exposed_ports := PyList [''80'', ''443'']\<rparr>)"
proof -
  let ?r = "RuntimeBase_init example_env () ''python'' example_args ''v1'' [''requirements.txt'']"
  note t = RuntimeBase_init_mutates_args [OF refl, where a = example_args
      and E = example_env and ctx = "()" and ns = "''python''" and cv = "''v1''"
      and df = "[''requirements.txt'']"]
  have ep: "entrypoint example_args = PyStr ''a b c'' \<and> ''a b c'' \<noteq> []"
    by (simp add: example_args_def)
  have ps: "is_opt_str (entrypoint example_args) \<and>
            exposed_ports example_args = PyStr ''80 443'' \<and> ''80 443'' \<noteq> []"
    by (simp add: example_args_def)
  from t [of "''a b c''"] ep have 1: "entrypoint (fst ?r) = PyList [''a'', ''b'', ''c'']"
    by simp
  from t [of "''80 443''"] ps have 2: "exposed_ports (fst ?r) = PyList [''80'', ''443'']"
    by simp
  from t [of "''a b c''"] 1 2
  have 3: "fst ?r = example_args\<lparr>entrypoint := PyList [''a'', ''b'', ''c''],
                                  exposed_ports := PyList [''80'', ''443'']\<rparr>"
    by simp
  obtain self where s: "snd ?r = Inr self"
    using example_init [where a = example_args and op = "Some ''/tmp/out.tar''" and up = True]
    by (simp add: example_args_def)
  with t [of "''a b c''"] 3 have "self_args self =
      example_args\<lparr>entrypoint := PyList [''a'', ''b'', ''c''],
                    exposed_ports := PyList [''80'', ''443'']\<rparr>"
    by simp
  with 3 s show ?thesis by blast
qed

text \<open>
  C10. When the entrypoint string has a leading space, a trailing space or two spaces in a
  row, the token list after construction contains the empty string: nothing is filtered
  out, the list has one token more than the string has spaces. The same holds for the
  exposed ports (the entrypoint being unset or a string). The entrypoint \<open>''a  b''\<close>
  becomes \<open>[''a'', '''', ''b'']\<close>.
\<close>

theorem RuntimeBase_init_empty_tokens:
  assumes "a' = fst (RuntimeBase_init E ctx ns a cv df)"
    and "s = CHR '' '' # u \<or> s = u @ '' '' \<or> s = u @ ''  '' @ v"
  shows "(entrypoint a = PyStr s \<longrightarrow>
            (\<exists>ts. entrypoint a' = PyList ts \<and> [] \<in> set ts \<and>
                  length ts = Suc (count_list s CHR '' ''))) \<and>
         (is_opt_str (entrypoint a) \<and> exposed_ports a = PyStr s \<longrightarrow>
            (\<exists>ts. exposed_ports a' = PyList ts \<and> [] \<in> set ts \<and>
                  length ts = Suc (count_list s CHR '' ''))) \<and>
         (entrypoint a = PyStr ''a  b'' \<longrightarrow> entrypoint a' = PyList [''a'', [], ''b''])"
proof (intro conjI impI)
  from assms(2) have ne: "s \<noteq> []" by auto
  from assms(2) have em: "[] \<in> set (str_split CHR '' '' s)"
    using str_split_empty_token [of s "CHR '' ''" u v] by simp
  {
    assume "entrypoint a = PyStr s"
    with ne have "entrypoint a' = PyList (str_split CHR '' '' s)"
      using assms(1) entrypoint_after [of a "PyList (str_split CHR '' '' s)"]
      by (simp add: split_if_set_str)
    with em show "\<exists>ts. entrypoint a' = PyList ts \<and> [] \<in> set ts \<and>
                  length ts = Suc (count_list s CHR '' '')"
      by (simp add: length_str_split)
  }
  {
    assume h: "is_opt_str (entrypoint a) \<and> exposed_ports a = PyStr s"
    then obtain ep where "split_if_set (entrypoint a) = Inr ep"
      using split_if_set_opt_str by blast
    with h ne have "exposed_ports a' = PyList (str_split CHR '' '' s)"
      using assms(1) exposed_ports_after [of a ep "PyList (str_split CHR '' '' s)"]
      by (simp add: split_if_set_str)
    with em show "\<exists>ts. exposed_ports a' = PyList ts \<and> [] \<in> set ts \<and>
                  length ts = Suc (count_list s CHR '' '')"
      by (simp add: length_str_split)
  }
  {
    assume "entrypoint a = PyStr ''a  b''"
    then show "entrypoint a' = PyList [''a'', [], ''b'']"
      using assms(1) entrypoint_after [of a "PyList [''a'', [], ''b'']"]
      by (simp add: split_if_set_def)
  }
qed

theorem RuntimeBase_init_empty_tokens_witness:
  "entrypoint (fst (RuntimeBase_init example_env () ''python''
       (example_args\<lparr>entrypoint := PyStr ''a  b'', exposed_ports := PyStr '' 80 ''\<rparr>) ''v1'' []))
     = PyList [''a'', [], ''b''] \<and>
   (\<exists>ts. exposed_ports (fst (RuntimeBase_init example_env () ''python''
       (example_args\<lparr>entrypoint := PyStr ''a  b'', exposed_ports := PyStr '' 80 ''\<rparr>) ''v1'' []))
     = PyList ts \<and> [] \<in> set ts \<and> length ts = 3)"
proof -
  let ?a = "example_args\<lparr>entrypoint := PyStr ''a  b'', exposed_ports := PyStr '' 80 ''\<rparr>"
  have 1: "''a  b'' = CHR '' '' # ''a'' \<or> ''a  b'' = ''a'' @ '' '' \<or> ''a  b'' = ''a'' @ ''  '' @ ''b''"
    by simp
  have 2: "'' 80 '' = CHR '' '' # ''80 '' \<or> '' 80 '' = ''80 '' @ '' '' \<or>
           '' 80 '' = ''80 '' @ ''  '' @ []"
    by simp
  from RuntimeBase_init_empty_tokens [OF refl 1, where a = ?a and E = example_env
      and ctx = "()" and ns = "''python''" and cv = "''v1''" and df = "[]"]
  have e: "entrypoint (fst (RuntimeBase_init example_env () ''python'' ?a ''v1'' []))
             = PyList [''a'', [], ''b'']"
    by simp
  from RuntimeBase_init_empty_tokens [OF refl 2, where a = ?a and E = example_env
      and ctx = "()" and ns = "''python''" and cv = "''v1''" and df = "[]"]
  obtain ts where "exposed_ports (fst (RuntimeBase_init example_env () ''python'' ?a ''v1'' []))
             = PyList ts" "[] \<in> set ts" "length ts = Suc (count_list '' 80 '' CHR '' '')"
    by auto
  then have "\<exists>ts. exposed_ports (fst (RuntimeBase_init example_env () ''python'' ?a ''v1'' []))
             = PyList ts \<and> [] \<in> set ts \<and> length ts = 3"
    by simp
  with e show ?thesis by blast
qed

section \<open>Storing the image\<close>

text \<open>
  C2. When the output path is set (a non-empty string), \<open>StoreImage\<close> takes the archive
  branch, whatever the upload flag is: it pushes nothing and touches no file other than
  the one at that path. When the archive can be opened and the image written out, the
  call returns, and whenever it returns the file at exactly that path holds the target
  reference and the composite image. When the archive cannot be opened, the call raises
  and writes nothing.
\<close>

theorem StoreImage_archive:
  assumes "output_path (self_args self) = Some p" and "p \<noteq> []"
  shows "pushes (fst (StoreImage io w self result_image)) = pushes w \<and>
         (\<forall>q. q \<noteq> p \<longrightarrow> files (fst (StoreImage io w self result_image)) q = files w q) \<and>
         (tarfile_open io p = Inr () \<and> tarball io (self_target_image self) result_image = Inr ()
            \<longrightarrow> snd (StoreImage io w self result_image) = Inr ()) \<and>
         (snd (StoreImage io w self result_image) = Inr () \<longrightarrow>
            files (fst (StoreImage io w self result_image))
              = (files w)(p \<mapsto> [(self_target_image self, result_image)])) \<and>
         (\<forall>e. tarfile_open io p = Inl e \<longrightarrow> StoreImage io w self result_image = (w, Inl e))"
  using assms by (simp add: StoreImage_def save_tarball_def split: sum.splits)

theorem StoreImage_archive_witness:
  "upload (self_args (example_builder example_args)) \<and>
   snd (StoreImage example_io example_world (example_builder example_args)
          (DockerImage (layer_image ''{}'' [''d0'', ''d1'']))) = Inr () \<and>
   files (fst (StoreImage example_io example_world (example_builder example_args)
          (DockerImage (layer_image ''{}'' [''d0'', ''d1'']))))
     = [''/tmp/out.tar'' \<mapsto>
          [(\<lparr> registry = ''gcr.io'', repository = ''app'', tag = ''latest'' \<rparr>,
            DockerImage (layer_image ''{}'' [''d0'', ''d1'']))]] \<and>
   pushes (fst (StoreImage example_io example_world (example_builder example_args)
          (DockerImage (layer_image ''{}'' [''d0'', ''d1''])))) = [] \<and>
   StoreImage example_io example_world
       (example_builder (example_args\<lparr>output_path := Some ''/no/such/dir/out.tar''\<rparr>))
       (DockerImage (layer_image ''{}'' [''d0'', ''d1'']))
     = (example_world, Inl (Raised ''IOError''))"
proof -
  let ?img = "DockerImage (layer_image ''{}'' [''d0'', ''d1''])"
  let ?b = "example_builder example_args"
  let ?b' = "example_builder (example_args\<lparr>output_path := Some ''/no/such/dir/out.tar''\<rparr>)"
  have 1: "output_path (self_args ?b) = Some ''/tmp/out.tar''"
    by (simp add: example_builder_def example_args_def)
  have 2: "''/tmp/out.tar'' \<noteq> []" by simp
  have 3: "output_path (self_args ?b') = Some ''/no/such/dir/out.tar''"
    by (simp add: example_builder_def)
  have 4: "''/no/such/dir/out.tar'' \<noteq> []" by simp
  have o: "tarfile_open example_io ''/tmp/out.tar'' = Inr ()"
    "tarball example_io (self_target_image ?b) ?img = Inr ()"
    "tarfile_open example_io ''/no/such/dir/out.tar'' = Inl (Raised ''IOError'')"
    by (simp_all add: example_io_def)
  from StoreImage_archive [OF 1 2, of example_io example_world ?img] o
  have a: "snd (StoreImage example_io example_world ?b ?img) = Inr () \<and>
           files (fst (StoreImage example_io example_world ?b ?img))
             = [''/tmp/out.tar'' \<mapsto>
                  [(\<lparr> registry = ''gcr.io'', repository = ''app'', tag = ''latest'' \<rparr>, ?img)]] \<and>
           pushes (fst (StoreImage example_io example_world ?b ?img)) = []"
    by (simp add: example_builder_def example_world_def)
  from StoreImage_archive [OF 3 4, of example_io example_world ?img] o
  have b: "StoreImage example_io example_world ?b' ?img = (example_world, Inl (Raised ''IOError''))"
    by simp
  have "upload (self_args ?b)" by (simp add: example_builder_def example_args_def)
  with a b show ?thesis by simp
qed

text \<open>
  The claim as the spec words it, a file at the output path for every configuration in
  which the path is set, does not hold: with the output path set to a file under a
  directory that does not exist, the call raises and there is no file at that path.
\<close>

theorem StoreImage_archive_counterexample:
  "nonempty (output_path (self_args
       (example_builder (example_args\<lparr>output_path := Some ''/no/such/dir/out.tar''\<rparr>))))
     = Some ''/no/such/dir/out.tar'' \<and>
   snd (StoreImage example_io example_world
       (example_builder (example_args\<lparr>output_path := Some ''/no/such/dir/out.tar''\<rparr>))
       (DockerImage (layer_image ''{}'' [''d0'', ''d1''])))
     = Inl (Raised ''IOError'') \<and>
   files (fst (StoreImage example_io example_world
       (example_builder (example_args\<lparr>output_path := Some ''/no/such/dir/out.tar''\<rparr>))
       (DockerImage (layer_image ''{}'' [''d0'', ''d1''])))) ''/no/such/dir/out.tar''
     = None"
  by (simp add: StoreImage_def save_tarball_def example_builder_def example_io_def
      example_world_def)

text \<open>
  C3. When the upload flag is set and the output path is not (it is unset or empty),
  \<open>StoreImage\<close> makes one push, of the composite image, to the target reference, with
  the target's credentials and the mount list holding the base reference, and changes
  no local file. For a builder that the constructor returned, these are the parsed
  target name, the credentials the keychain resolved for it, and the parsed base name.
\<close>

theorem StoreImage_upload:
  assumes "upload (self_args self)" and "nonempty (output_path (self_args self)) = None"
  shows "files (fst (StoreImage io w self result_image)) = files w \<and>
         pushes (fst (StoreImage io w self result_image)) = pushes w @
           [\<lparr> push_name = self_target_image self,
              push_creds = self_target_creds self,
              push_transport = self_transport self,
              push_threads = 32,
              push_mount = [self_base_name self],
              push_image = result_image \<rparr>] \<and>
         (RuntimeBase_init E ctx ns a cv df = (a', Inr self) \<longrightarrow>
            Tag E (name a) = Inr (self_target_image self) \<and>
            Resolve E (self_target_image self) = Inr (self_target_creds self) \<and>
            Tag E (base a) = Inr (self_base_name self))"
proof (intro conjI impI)
  show "files (fst (StoreImage io w self result_image)) = files w"
    using assms by (simp add: StoreImage_def push_image_to_registry_def)
  show "pushes (fst (StoreImage io w self result_image)) = pushes w @
           [\<lparr> push_name = self_target_image self,
              push_creds = self_target_creds self,
              push_transport = self_transport self,
              push_threads = 32,
              push_mount = [self_base_name self],
              push_image = result_image \<rparr>]"
    using assms by (simp add: StoreImage_def push_image_to_registry_def THREADS_def)
  assume i: "RuntimeBase_init E ctx ns a cv df = (a', Inr self)"
  from init_fields [OF i] show "Tag E (name a) = Inr (self_target_image self)" by simp
  from init_fields [OF i]
  show "Resolve E (self_target_image self) = Inr (self_target_creds self)" by simp
  from init_fields [OF i] show "Tag E (base a) = Inr (self_base_name self)" by simp
qed

theorem StoreImage_upload_witness:
  "\<exists>a' self.
     RuntimeBase_init example_env () ''python'' (example_args\<lparr>output_path := None, upload := True\<rparr>)
       ''v1'' [''requirements.txt''] = (a', Inr self) \<and>
     files (fst (StoreImage example_io example_world self
              (DockerImage (layer_image ''{}'' [''d0'', ''d1''])))) = Map.empty \<and>
     pushes (fst (StoreImage example_io example_world self
              (DockerImage (layer_image ''{}'' [''d0'', ''d1''])))) =
       [\<lparr> push_name = \<lparr> registry = ''gcr.io'', repository = ''app'', tag = ''latest'' \<rparr>,
          push_creds = ''token:app'',
          push_transport = Http 32,
          push_threads = 32,
          push_mount = [\<lparr> registry = ''gcr.io'', repository = ''base'', tag = ''latest'' \<rparr>],
          push_image = DockerImage (layer_image ''{}'' [''d0'', ''d1'']) \<rparr>]"
proof -
  let ?img = "DockerImage (layer_image ''{}'' [''d0'', ''d1''])"
  let ?a = "example_args\<lparr>output_path := None, upload := True\<rparr>"
  let ?a' = "?a\<lparr>entrypoint := PyList [''a'', ''b'', ''c''], exposed_ports := PyList [''80'', ''443'']\<rparr>"
  let ?self = "example_builder ?a'"
  have i: "RuntimeBase_init example_env () ''python'' ?a ''v1'' [''requirements.txt'']
             = (?a', Inr ?self)"
    by (rule example_init [OF refl])
  have 1: "upload (self_args ?self)" by (simp add: example_builder_def)
  have 2: "nonempty (output_path (self_args ?self)) = None" by (simp add: example_builder_def)
  from StoreImage_upload [OF 1 2, of example_io example_world ?img example_env "()"
      "''python''" ?a "''v1''" "[''requirements.txt'']" ?a'] i
  have "files (fst (StoreImage example_io example_world ?self ?img)) = Map.empty \<and>
     pushes (fst (StoreImage example_io example_world ?self ?img)) =
       [\<lparr> push_name = \<lparr> registry = ''gcr.io'', repository = ''app'', tag = ''latest'' \<rparr>,
          push_creds = ''token:app'',
          push_transport = Http 32,
          push_threads = 32,
          push_mount = [\<lparr> registry = ''gcr.io'', repository = ''base'', tag = ''latest'' \<rparr>],
          push_image = ?img \<rparr>]"
    by (simp add: example_builder_def example_world_def)
  with i show ?thesis by blast
qed

text \<open>
  C4. When neither the output path nor the upload flag is set, \<open>StoreImage\<close> leaves
  everything as it was, no file is written, nothing is pushed, nothing is logged, and it
  returns without raising, whatever the collaborators would do: none of them is called.
\<close>

theorem StoreImage_neither:
  assumes "nonempty (output_path (self_args self)) = None" and "\<not> upload (self_args self)"
  shows "StoreImage io w self result_image = (w, Inr ())"
  using assms by (simp add: StoreImage_def)

theorem StoreImage_neither_witness:
  "StoreImage \<lparr> tarfile_open = (\<lambda>p. Inl (Raised ''IOError'')),
                tarball = (\<lambda>r i. Inl (Raised ''IOError'')) \<rparr>
     example_world
     (example_builder (example_args\<lparr>output_path := None, upload := False\<rparr>))
     (DockerImage (layer_image ''{}'' [''d0'', ''d1'']))
     = (example_world, Inr ())"
proof -
  let ?self = "example_builder (example_args\<lparr>output_path := None, upload := False\<rparr>)"
  have 1: "nonempty (output_path (self_args ?self)) = None" by (simp add: example_builder_def)
  have 2: "\<not> upload (self_args ?self)" by (simp add: example_builder_def)
  from StoreImage_neither [OF 1 2] show ?thesis .
qed

end
